theory Spec2Isabelle
  imports Main "HOL-Library.Word"
begin

unbundle bit_operations_syntax

section \<open>Go values: bytes, errors, panics\<close>

text \<open>
  A Go \<open>[]byte\<close> is a list of bytes; a nil slice and an empty slice are both \<open>[]\<close>
  (they differ only for the \<open>prev == nil\<close> test of the lexical order validator, whose
  \<open>prev\<close> is therefore an option). Slices are taken to have a capacity equal to their
  length, so a slice expression whose bound exceeds the length panics. Go's \<open>int\<close> is
  64 bits wide: it is an \<open>int\<close> here, wrapped by \<open>int64\<close> after every addition.
\<close>

type_synonym byte = "8 word"
type_synonym uint64 = "64 word"


text \<open>
  \<open>fmt.Errorf(format, ...)\<close> with one \<open>%w\<close> operand: the format string, the wrapped
  error, and the remaining operands in order (\<open>%d\<close> as \<open>ArgD\<close>, \<open>%T\<close> as \<open>ArgT\<close>).
  The other constructors are the package's sentinel errors (error.go, error.go's
  transaction part), the two conditions of the varint codec, and \<open>OtherErr\<close> for an
  error value supplied by a caller.
\<close>

datatype fmt_arg = ArgD int | ArgT string

datatype error =
    ErrInvalidBytes
  | ErrUnknownAddrType
  | ErrUnknownInputType
  | ErrUnknownOutputType
  | ErrUnknownTransactionType
  | ErrUnknownUnlockBlockType
  | ErrUnknownSignatureType
  | ErrDeserializationDataTooSmall
  | ErrInputsOrderViolatesLexicalOrder
  | ErrOutputsOrderViolatesLexicalOrder
  | ErrInputUTXORefsNotUnique
  | ErrOutputAddrNotUnique
  | ErrOutputsSumExceedsTotalSupply
  | ErrOutputDepositsMoreThanTotalSupply
  | TooShort
  | Malformed
  | OtherErr string
  | Errorf string error "fmt_arg list"


text \<open>A call either panics or returns its (possibly multiple) results.\<close>

datatype 'a go = is_Panic: Panic string | is_Return: Return 'a

section \<open>error.go: length checks\<close>

definition checkExactByteLength :: "int \<Rightarrow> int \<Rightarrow> error option" where
  "checkExactByteLength exact len =
     (if len \<noteq> exact
      then Some (Errorf ''%w: data must be at exact %d bytes long but is %d''
                   ErrInvalidBytes [ArgD exact, ArgD len])
      else None)"

section \<open>signature.go\<close>

definition SignatureWOTS :: byte where "SignatureWOTS = 0"
definition SignatureEd25519 :: byte where "SignatureEd25519 = 1"

text \<open>\<open>ed25519.PublicKeySize\<close> and \<open>ed25519.SignatureSize\<close> of Go's crypto/ed25519.\<close>

definition PublicKeySize :: nat where "PublicKeySize = 32"
definition SignatureSize :: nat where "SignatureSize = 64"

text \<open>
  Modelled from the spec: the constant \<open>OneByte\<close> is declared in a file that is not
  part of the sources at hand; the wire layouts give every type discriminant one byte
  (\<open>[type:1]\<close>).
\<close>

definition OneByte :: nat where "OneByte = 1"

text \<open>
  Modelled from the spec: the constant \<open>Ed25519AddressSerializedBytesSize\<close> is declared
  in a file that is not part of the sources at hand; the wire layout of an Ed25519
  address is \<open>[type:1][pubkey:32]\<close>.
\<close>

definition Ed25519AddressSerializedBytesSize :: nat where
  "Ed25519AddressSerializedBytesSize = OneByte + 32"

definition Ed25519SignatureSerializedBytesSize :: nat where
  "Ed25519SignatureSerializedBytesSize = OneByte + PublicKeySize + SignatureSize"

datatype WOTSSignature = WOTSSignature

text \<open>
  The two arrays of an \<open>Ed25519Signature\<close> are lists; a value of the Go type has
  32 and 64 bytes in them (\<open>Ed25519Signature_wf\<close>).
\<close>

record Ed25519Signature =
  PublicKey :: "byte list"
  Signature :: "byte list"

definition Ed25519Signature_wf :: "Ed25519Signature \<Rightarrow> bool" where
  "Ed25519Signature_wf e =
     (length (PublicKey e) = PublicKeySize \<and> length (Signature e) = SignatureSize)"

text \<open>The zero value \<open>Ed25519Signature{}\<close>.\<close>

definition Ed25519Signature_zero :: Ed25519Signature where
  "Ed25519Signature_zero =
     \<lparr>PublicKey = replicate PublicKeySize 0, Signature = replicate SignatureSize 0\<rparr>"

text \<open>The signature family's implementations of \<open>Serializable\<close>.\<close>

datatype SignatureSerializable =
    WOTSSignature_ptr WOTSSignature
  | Ed25519Signature_ptr Ed25519Signature

definition SignatureSelector ::
  "byte \<Rightarrow> (SignatureSerializable option \<times> error option) go" where
  "SignatureSelector typeByte =
     (if typeByte = SignatureWOTS then Return (Some (WOTSSignature_ptr WOTSSignature), None)
      else if typeByte = SignatureEd25519
        then Return (Some (Ed25519Signature_ptr Ed25519Signature_zero), None)
      else Return (None,
             Some (Errorf ''%w: type byte %d'' ErrUnknownSignatureType [ArgD (uint typeByte)])))"

definition WOTSSignature_Serialize :: "WOTSSignature \<Rightarrow> (byte list \<times> error option) go" where
  "WOTSSignature_Serialize w = Panic ''implement me''"

definition WOTSSignature_Deserialize ::
  "WOTSSignature \<Rightarrow> byte list \<Rightarrow> (WOTSSignature \<times> int \<times> error option) go" where
  "WOTSSignature_Deserialize w data = Panic ''implement me''"

text \<open>
  Go's builtin \<open>copy(dst, src)\<close>: the first \<open>min (len dst) (len src)\<close> elements of
  \<open>dst\<close> are overwritten; the result is the new contents of \<open>dst\<close>.
\<close>

definition copy :: "'a list \<Rightarrow> 'a list \<Rightarrow> 'a list" where
  "copy dst src =
     (let n = min (length dst) (length src) in take n src @ drop n dst)"

text \<open>
  The body of \<open>Ed25519Signature.Deserialize\<close>, run on the method's own variable \<open>e\<close>:
  the result carries what that variable holds when the method returns.
\<close>

definition Ed25519Signature_Deserialize_body ::
  "Ed25519Signature \<Rightarrow> byte list \<Rightarrow> (Ed25519Signature \<times> int \<times> error option) go" where
  "Ed25519Signature_Deserialize_body e data =
     (if length data < OneByte then Panic ''slice bounds out of range''
      else
        let data1 = drop OneByte data in
        case checkExactByteLength (int Ed25519SignatureSerializedBytesSize) (int (length data1)) of
          Some err \<Rightarrow> Return (e, 0, Some err)
        | None \<Rightarrow>
            let e1 = e\<lparr>PublicKey := copy (PublicKey e) (take PublicKeySize data1)\<rparr>;
                e2 = e1\<lparr>Signature := copy (Signature e1) (drop PublicKeySize data1)\<rparr>
            in Return (e2, int Ed25519AddressSerializedBytesSize, None))"

text \<open>
  \<open>func (e Ed25519Signature) Deserialize\<close> has a value receiver: the method works on a
  copy, and the caller's value, the first component of the result, is the one passed in.
\<close>

definition Ed25519Signature_Deserialize ::
  "Ed25519Signature \<Rightarrow> byte list \<Rightarrow> (Ed25519Signature \<times> int \<times> error option) go" where
  "Ed25519Signature_Deserialize e data =
     (case Ed25519Signature_Deserialize_body e data of
        Panic m \<Rightarrow> Panic m
      | Return (e_copy, n, err) \<Rightarrow> Return (e, n, err))"

definition Ed25519Signature_Serialize ::
  "Ed25519Signature \<Rightarrow> (byte list \<times> error option) go" where
  "Ed25519Signature_Serialize e =
     (let b0 = replicate Ed25519AddressSerializedBytesSize (0 :: byte);
          b1 = b0[0 := SignatureEd25519];
          b2 = take OneByte b1 @ copy (drop OneByte b1) (PublicKey e);
          b3 = take (OneByte + PublicKeySize) b2
                 @ copy (drop (OneByte + PublicKeySize) b2) (Signature e)
      in Return (b3, None))"

section \<open>The transaction envelope: selector\<close>

definition TransactionUnsigned :: byte where "TransactionUnsigned = 0"

text \<open>
  \<open>Inputs\<close>, \<open>Outputs\<close> and \<open>Payload\<close> hold values of the interface \<open>Serializable\<close>;
  the record leaves their implementations open. A nil \<open>Payload\<close> is \<open>None\<close>.
\<close>

record ('i, 'o, 'p) UnsignedTransaction =
  Inputs :: "'i list"
  Outputs :: "'o list"
  Payload :: "'p option"

definition UnsignedTransaction_zero :: "('i, 'o, 'p) UnsignedTransaction" where
  "UnsignedTransaction_zero = \<lparr>Inputs = [], Outputs = [], Payload = None\<rparr>"

definition TransactionSelector ::
  "byte \<Rightarrow> (('i, 'o, 'p) UnsignedTransaction option \<times> error option) go" where
  "TransactionSelector typeByte =
     (if typeByte = TransactionUnsigned then Return (Some UnsignedTransaction_zero, None)
      else Return (None,
             Some (Errorf ''%w: type byte %d'' ErrUnknownTransactionType [ArgD (uint typeByte)])))"

section \<open>The varint codec\<close>

definition MaxVarintLen64 :: nat where "MaxVarintLen64 = 10"

text \<open>
  Modelled from the spec: the package's \<open>Uvarint\<close> is declared in a file that is not part
  of the sources at hand. Each byte holds 7 value bits and a continuation bit; decoding
  stops at the first byte without the continuation bit; it fails with \<open>TooShort\<close> when the
  buffer ends before such a byte and with \<open>Malformed\<close> when more than the maximum width
  is consumed; it returns the value and the number of bytes consumed.
\<close>

fun Uvarint_from :: "nat \<Rightarrow> uint64 \<Rightarrow> byte list \<Rightarrow> uint64 \<times> int \<times> error option" where
  "Uvarint_from i x [] = (0, 0, Some TooShort)"
| "Uvarint_from i x (b # bs) =
     (if MaxVarintLen64 \<le> i then (0, 0, Some Malformed)
      else if b < 0x80 then (x OR push_bit (7 * i) (ucast b), int i + 1, None)
      else Uvarint_from (i + 1) (x OR push_bit (7 * i) (ucast (b AND 0x7f))) bs)"

type_synonym UvarintFunc = "byte list \<Rightarrow> uint64 \<times> int \<times> error option"

definition Uvarint :: UvarintFunc where
  "Uvarint data = Uvarint_from 0 0 data"

text \<open>
  The functions of serializable.go below take the package's \<open>Uvarint\<close> as their first
  argument \<open>uvarint\<close>, so that what is proved of them holds for any implementation of it.
\<close>

text \<open>
  \<open>binary.PutUvarint\<close> of Go's encoding/binary, as the bytes it writes
  (\<open>varIntBuf[:bytesWritten]\<close>).
\<close>

function PutUvarint :: "uint64 \<Rightarrow> byte list" where
  "PutUvarint x =
     (if 0x80 \<le> x then (ucast x OR 0x80) # PutUvarint (drop_bit 7 x) else [ucast x])"
  by pat_completeness auto
termination
proof (relation "measure unat")
  show "wf (measure (unat :: uint64 \<Rightarrow> nat))" by simp
next
  fix x :: uint64
  assume "0x80 \<le> x"
  then have "128 \<le> unat x" by (simp add: word_le_nat_alt)
  then have "unat x div 128 < unat x" by simp
  then show "(drop_bit 7 x, x) \<in> measure unat"
    by (simp add: drop_bit_eq_div unat_div)
qed

declare PutUvarint.simps [simp del]

section \<open>serializable.go\<close>

type_synonym DeSerializationMode = byte

text \<open>
  The interface \<open>Serializable\<close>, for objects of type \<open>'a\<close>: \<open>Deserialize\<close> gives the
  object after the call, the bytes consumed and the error; \<open>GoTypeName\<close> is the dynamic
  type that \<open>%T\<close> prints. A nil interface value is \<open>None\<close>.
\<close>

record 'a Serializable =
  Deserialize :: "'a \<Rightarrow> byte list \<Rightarrow> DeSerializationMode \<Rightarrow> ('a \<times> int \<times> error option) go"
  GoTypeName :: "'a \<Rightarrow> string"


type_synonym 'a SerializableSelectorFunc = "uint64 \<Rightarrow> ('a option \<times> error option) go"







definition DeserializeObject ::
  "UvarintFunc \<Rightarrow> 'a Serializable \<Rightarrow> byte list \<Rightarrow> DeSerializationMode \<Rightarrow> 'a SerializableSelectorFunc
     \<Rightarrow> ('a option \<times> int \<times> error option) go" where
  "DeserializeObject uvarint M data deSeriMode serSel =
     (case uvarint data of
        (ty, _, Some err) \<Rightarrow>
          Return (None, 0,
            Some (Errorf ''%w: can not deserialize inner object since type denotation is invalid''
                    err []))
      | (ty, _, None) \<Rightarrow>
          (case serSel ty of
             Panic m \<Rightarrow> Panic m
           | Return (_, Some err) \<Rightarrow> Return (None, 0, Some err)
           | Return (None, None) \<Rightarrow> Panic ''invalid memory address or nil pointer dereference''
           | Return (Some seri, None) \<Rightarrow>
               (case Deserialize M seri data deSeriMode of
                  Panic m \<Rightarrow> Panic m
                | Return (seri1, _, Some err) \<Rightarrow>
                    Return (None, 0,
                      Some (Errorf ''unable to deserialize %T: %w'' err [ArgT (GoTypeName M seri1)]))
                | Return (seri1, seriBytesConsumed, None) \<Rightarrow>
                    Return (Some seri1, seriBytesConsumed, None))))"




section \<open>The transaction envelope: Serialize\<close>

text \<open>
  What \<open>UnsignedTransaction.Serialize\<close> calls outside the sources at hand, as arguments:
  \<open>ValidateInputs_UTXORefsUnique\<close> is the call
  \<open>ValidateInputs(u.Inputs, InputsUTXORefsUniqueValidator())\<close>,
  \<open>ValidateOutputs_AddrUnique\<close> the call
  \<open>ValidateOutputs(u.Outputs, OutputsAddrUniqueValidator())\<close>, and the three
  \<open>Serialize\<close> methods are those of the inputs, the outputs and the payload.
\<close>

record ('i, 'o, 'p) UnsignedTransaction_calls =
  ValidateInputs_UTXORefsUnique :: "'i list \<Rightarrow> error option"
  ValidateOutputs_AddrUnique :: "'o list \<Rightarrow> error option"
  Input_Serialize :: "'i \<Rightarrow> bool \<Rightarrow> (byte list \<times> error option) go"
  Output_Serialize :: "'o \<Rightarrow> bool \<Rightarrow> (byte list \<times> error option) go"
  Payload_Serialize :: "'p \<Rightarrow> bool \<Rightarrow> (byte list \<times> error option) go"

text \<open>
  The two \<open>for i := range\<close> loops of \<open>Serialize\<close>, from index \<open>i\<close> on: each element is
  serialized and written to the buffer \<open>b\<close>; an error leaves the method at once, wrapped
  with the index by the format \<open>fmt\<close>.
\<close>

fun Serialize_range ::
  "string \<Rightarrow> ('x \<Rightarrow> bool \<Rightarrow> (byte list \<times> error option) go) \<Rightarrow> bool \<Rightarrow> int \<Rightarrow> 'x list
     \<Rightarrow> byte list \<Rightarrow> (byte list \<times> error option) go" where
  "Serialize_range fmt ser skipValidation i [] b = Return (b, None)"
| "Serialize_range fmt ser skipValidation i (x # xs) b =
     (case ser x skipValidation of
        Panic m \<Rightarrow> Panic m
      | Return (_, Some err) \<Rightarrow> Return ([], Some (Errorf fmt err [ArgD i]))
      | Return (elemSer, None) \<Rightarrow>
          Serialize_range fmt ser skipValidation (i + 1) xs (b @ elemSer))"

definition UnsignedTransaction_Serialize ::
  "('i, 'o, 'p) UnsignedTransaction_calls \<Rightarrow> ('i, 'o, 'p) UnsignedTransaction \<Rightarrow> bool
     \<Rightarrow> (byte list \<times> error option) go" where
  "UnsignedTransaction_Serialize C u skipValidation =
     (case (if \<not> skipValidation
            then (case ValidateInputs_UTXORefsUnique C (Inputs u) of
                    Some err \<Rightarrow> Some err
                  | None \<Rightarrow> ValidateOutputs_AddrUnique C (Outputs u))
            else None) of
        Some err \<Rightarrow> Return ([], Some err)
      | None \<Rightarrow>
          (case Serialize_range ''unable to serialize input at index %d: %w''
                  (Input_Serialize C) skipValidation 0 (Inputs u)
                  ([TransactionUnsigned] @ PutUvarint (word_of_nat (length (Inputs u)))) of
             Panic m \<Rightarrow> Panic m
           | Return (_, Some err) \<Rightarrow> Return ([], Some err)
           | Return (b1, None) \<Rightarrow>
               (case Serialize_range ''unable to serialize output at index %d: %w''
                       (Output_Serialize C) skipValidation 0 (Outputs u)
                       (b1 @ PutUvarint (word_of_nat (length (Outputs u)))) of
                  Panic m \<Rightarrow> Panic m
                | Return (_, Some err) \<Rightarrow> Return ([], Some err)
                | Return (b2, None) \<Rightarrow>
                    (case Payload u of
                       None \<Rightarrow> Return (b2 @ [0], None)
                     | Some payload \<Rightarrow>
                         (case Payload_Serialize C payload skipValidation of
                            Panic m \<Rightarrow> Panic m
                          | Return (payloadSer, _) \<Rightarrow>
                              Return (b2 @ payloadSer
                                        @ PutUvarint (word_of_nat (length payloadSer))
                                        @ payloadSer, None))))))"

text \<open>
  Modelled from the spec: \<open>ValidateInputs\<close>, \<open>ValidateOutputs\<close> and the validators are
  declared in files that are not part of the sources at hand. A validator is a pure
  function over a collection that returns success or a failure; validators compose by
  short-circuiting on the first failure, in the caller's order.
\<close>

type_synonym 'x ValidatorFunc = "'x list \<Rightarrow> error option"

fun Validate :: "'x list \<Rightarrow> 'x ValidatorFunc list \<Rightarrow> error option" where
  "Validate xs [] = None"
| "Validate xs (f # fs) = (case f xs of Some err \<Rightarrow> Some err | None \<Rightarrow> Validate xs fs)"

text \<open>
  Modelled from the spec: the UTXO reference uniqueness validator computes a derived
  key per input (transaction id and output index, here \<open>key\<close>) and fails with the
  duplicate reference error if any two inputs share a key.
\<close>

definition InputsUTXORefsUniqueValidator :: "('i \<Rightarrow> 'k) \<Rightarrow> 'i ValidatorFunc" where
  "InputsUTXORefsUniqueValidator key inputs =
     (if distinct (map key inputs) then None else Some ErrInputUTXORefsNotUnique)"

text \<open>
  Modelled from the spec: the address uniqueness validator computes a derived key per
  output (the serialized address bytes, here \<open>key\<close>) and fails with the duplicate deposit
  error if any two outputs share a key.
\<close>

definition OutputsAddrUniqueValidator :: "('o \<Rightarrow> 'k) \<Rightarrow> 'o ValidatorFunc" where
  "OutputsAddrUniqueValidator key outputs =
     (if distinct (map key outputs) then None else Some ErrOutputAddrNotUnique)"

text \<open>
  The calls of \<open>UnsignedTransaction.Serialize\<close> with the two validation calls as the spec
  describes them: \<open>ValidateInputs\<close> with the UTXO reference uniqueness validator and
  \<open>ValidateOutputs\<close> with the address uniqueness validator. \<open>inputKey\<close> and \<open>outputKey\<close>
  are the derived keys.
\<close>

definition validated_calls ::
  "('i \<Rightarrow> 'k) \<Rightarrow> ('o \<Rightarrow> 'l) \<Rightarrow> ('i, 'o, 'p) UnsignedTransaction_calls
     \<Rightarrow> ('i, 'o, 'p) UnsignedTransaction_calls" where
  "validated_calls inputKey outputKey C =
     C\<lparr>ValidateInputs_UTXORefsUnique :=
         (\<lambda>inputs. Validate inputs [InputsUTXORefsUniqueValidator inputKey]),
       ValidateOutputs_AddrUnique :=
         (\<lambda>outputs. Validate outputs [OutputsAddrUniqueValidator outputKey])\<rparr>"

section \<open>Example arguments\<close>

text \<open>
  A small implementation of \<open>Serializable\<close> to run the codec on: an object of two
  bytes on the wire, its type byte and one value byte, which it keeps. Its selector
  knows the type 0 only.
\<close>

definition TaggedByte_Deserialize ::
  "byte \<Rightarrow> byte list \<Rightarrow> DeSerializationMode \<Rightarrow> (byte \<times> int \<times> error option) go" where
  "TaggedByte_Deserialize obj data deSeriMode =
     (case data of
        ty # v # _ \<Rightarrow> Return (v, 2, None)
      | _ \<Rightarrow> Return (obj, 0, Some ErrDeserializationDataTooSmall))"

definition TaggedByte_TypeName :: "byte \<Rightarrow> string" where
  "TaggedByte_TypeName obj = ''*iota.TaggedByte''"

definition TaggedByte :: "byte Serializable" where
  "TaggedByte = \<lparr>Deserialize = TaggedByte_Deserialize, GoTypeName = TaggedByte_TypeName\<rparr>"

definition TaggedByte_Selector :: "byte SerializableSelectorFunc" where
  "TaggedByte_Selector ty =
     (if ty = 0 then Return (Some 0, None)
      else Return (None, Some (Errorf ''%w: type byte %d'' ErrUnknownInputType [ArgD (uint ty)])))"




text \<open>
  Inputs, outputs and payloads that are their own serialization, with validators that
  accept everything.
\<close>

definition RawBytes_Serialize :: "byte list \<Rightarrow> bool \<Rightarrow> (byte list \<times> error option) go" where
  "RawBytes_Serialize x skipValidation = Return (x, None)"

definition accept_all :: "byte list list \<Rightarrow> error option" where
  "accept_all xs = None"

definition RawBytes_calls :: "(byte list, byte list, byte list) UnsignedTransaction_calls" where
  "RawBytes_calls =
     \<lparr>ValidateInputs_UTXORefsUnique = accept_all, ValidateOutputs_AddrUnique = accept_all,
      Input_Serialize = RawBytes_Serialize, Output_Serialize = RawBytes_Serialize,
      Payload_Serialize = RawBytes_Serialize\<rparr>"

definition RawBytes_key :: "byte list \<Rightarrow> byte list" where
  "RawBytes_key x = x"

section \<open>Auxiliary facts\<close>






text \<open>A range loop whose elements all serialize appends their bytes in order.\<close>

lemma Serialize_range_all:
  "map (\<lambda>x. ser x skipValidation) xs = map (\<lambda>s. Return (s, None)) ss \<Longrightarrow>
   Serialize_range fmt ser skipValidation i xs b = Return (b @ concat ss, None)"
proof (induction xs arbitrary: ss i b)
  case Nil
  then show ?case by simp
next
  case (Cons x xs)
  then obtain s ss' where ss: "ss = s # ss'" by (cases ss) auto
  with Cons.prems have hd: "ser x skipValidation = Return (s, None)"
    and tl: "map (\<lambda>x. ser x skipValidation) xs = map (\<lambda>s. Return (s, None)) ss'"
    by simp_all
  show ?case using hd Cons.IH [OF tl] ss by simp
qed

text \<open>
  With validation on, an error of either validator is what \<open>Serialize\<close> returns, with
  nil bytes, whatever the \<open>Serialize\<close> methods of the elements do.
\<close>

lemma Serialize_validation_gate:
  assumes "\<not> skipValidation"
    and "ValidateInputs_UTXORefsUnique C (Inputs u) = Some err
         \<or> (ValidateInputs_UTXORefsUnique C (Inputs u) = None
              \<and> ValidateOutputs_AddrUnique C (Outputs u) = Some err)"
  shows "UnsignedTransaction_Serialize C u skipValidation = Return ([], Some err)"
  using assms by (auto simp: UnsignedTransaction_Serialize_def)

section \<open>The claims\<close>

subsection \<open>Ed25519 signatures\<close>

text \<open>
  C1 asks that decoding the bytes \<open>Serialize\<close> produces gives the value back. The code
  does not do this. \<open>Serialize\<close> fills an array of
  \<open>Ed25519AddressSerializedBytesSize\<close> bytes, so a signature with public key
  \<open>01..01\<close> and signature \<open>02..02\<close> becomes 33 bytes without its signature part;
  \<open>Deserialize\<close> rejects these bytes, because it asks for 97 bytes after the type byte;
  and on a buffer it accepts (98 bytes) the target still holds what it held before, since
  the receiver is a value.
\<close>

theorem Ed25519Signature_roundtrip_fails:
  "Ed25519Signature_Serialize \<lparr>PublicKey = replicate 32 1, Signature = replicate 64 2\<rparr> =
     Return (1 # replicate 32 1, None)
   \<and> Ed25519Signature_Deserialize Ed25519Signature_zero (1 # replicate 32 1) =
       Return (Ed25519Signature_zero, 0,
         Some (Errorf ''%w: data must be at exact %d bytes long but is %d''
                 ErrInvalidBytes [ArgD 97, ArgD 32]))
   \<and> Ed25519Signature_Deserialize Ed25519Signature_zero
         (1 # replicate 32 1 @ replicate 64 2 @ [0]) =
       Return (Ed25519Signature_zero, 33, None)"
  by code_simp

text \<open>
  The same holds for every signature, not only for this one: the bytes \<open>Serialize\<close> returns
  are never accepted by \<open>Deserialize\<close>.
\<close>

lemma Ed25519Signature_Serialize_never_decodes:
  assumes "Ed25519Signature_wf e"
    and "Ed25519Signature_Serialize e = Return (b, err)"
  shows "Ed25519Signature_Deserialize target b =
           Return (target, 0,
             Some (Errorf ''%w: data must be at exact %d bytes long but is %d''
                     ErrInvalidBytes [ArgD 97, ArgD 32]))"
proof -
  have "length b = 33"
    using assms
    by (auto simp: Ed25519Signature_Serialize_def Ed25519Signature_wf_def copy_def Let_def
          Ed25519AddressSerializedBytesSize_def OneByte_def PublicKeySize_def SignatureSize_def)
  then show ?thesis
    by (simp add: Ed25519Signature_Deserialize_def Ed25519Signature_Deserialize_body_def
          checkExactByteLength_def Ed25519SignatureSerializedBytesSize_def OneByte_def
          PublicKeySize_def SignatureSize_def)
qed

text \<open>
  C2 asks that decoding a buffer that begins with the 97 bytes of an encoded signature
  succeeds and reports 97 bytes. The code rejects exactly these 97 bytes (96 are left
  after the type byte, 97 are asked for), and on the 98 bytes it accepts it reports
  \<open>Ed25519AddressSerializedBytesSize\<close>, 33.
\<close>

theorem Ed25519Signature_consumed_mismatch:
  "Ed25519Signature_Deserialize Ed25519Signature_zero (1 # replicate 32 1 @ replicate 64 2) =
     Return (Ed25519Signature_zero, 0,
       Some (Errorf ''%w: data must be at exact %d bytes long but is %d''
               ErrInvalidBytes [ArgD 97, ArgD 96]))
   \<and> Ed25519Signature_Deserialize_body Ed25519Signature_zero
         (1 # replicate 32 1 @ replicate 64 2 @ [9]) =
       Return (\<lparr>PublicKey = replicate 32 1, Signature = replicate 64 2\<rparr>, 33, None)"
  by code_simp

text \<open>
  C5, as amended: both methods of the unimplemented WOTS signature panic with
  \<open>implement me\<close>, for every receiver and every buffer; neither returns an error.
\<close>

theorem WOTSSignature_panics:
  "WOTSSignature_Serialize w = Panic ''implement me''
   \<and> WOTSSignature_Deserialize w data = Panic ''implement me''"
  by (simp add: WOTSSignature_Serialize_def WOTSSignature_Deserialize_def)

text \<open>
  C5 as stated (an error is returned, there is no panic) fails: the two calls panic.
\<close>

theorem WOTSSignature_panics_counterexample:
  "is_Panic (WOTSSignature_Serialize WOTSSignature)
   \<and> is_Panic (WOTSSignature_Deserialize WOTSSignature [0])"
  by (simp add: WOTSSignature_Serialize_def WOTSSignature_Deserialize_def)

subsection \<open>Type selectors\<close>

text \<open>
  C6: for a type byte outside the known set, \<open>SignatureSelector\<close> and
  \<open>TransactionSelector\<close> return no instance and an error that wraps the family's
  unknown type error and carries the byte; for a known type byte they return the zero
  value of the matching type. Neither panics.
\<close>

theorem selectors_unknown_and_known:
  "(typeByte \<noteq> SignatureWOTS \<and> typeByte \<noteq> SignatureEd25519 \<longrightarrow>
      SignatureSelector typeByte =
        Return (None, Some (Errorf ''%w: type byte %d'' ErrUnknownSignatureType
                              [ArgD (uint typeByte)])))
   \<and> SignatureSelector SignatureWOTS = Return (Some (WOTSSignature_ptr WOTSSignature), None)
   \<and> SignatureSelector SignatureEd25519 =
        Return (Some (Ed25519Signature_ptr
                        \<lparr>PublicKey = replicate 32 0, Signature = replicate 64 0\<rparr>), None)
   \<and> (typeByte \<noteq> TransactionUnsigned \<longrightarrow>
        (TransactionSelector typeByte
           :: (('i, 'o, 'p) UnsignedTransaction option \<times> error option) go) =
          Return (None, Some (Errorf ''%w: type byte %d'' ErrUnknownTransactionType
                                [ArgD (uint typeByte)])))
   \<and> (TransactionSelector TransactionUnsigned
         :: (('i, 'o, 'p) UnsignedTransaction option \<times> error option) go) =
        Return (Some \<lparr>Inputs = [], Outputs = [], Payload = None\<rparr>, None)"
  by (simp add: SignatureSelector_def TransactionSelector_def SignatureWOTS_def
        SignatureEd25519_def TransactionUnsigned_def Ed25519Signature_zero_def
        UnsignedTransaction_zero_def PublicKeySize_def SignatureSize_def)

text \<open>The type byte 100, which the package's tests use, is unknown to both selectors.\<close>

theorem selectors_unknown_and_known_witness:
  "(100 :: byte) \<noteq> SignatureWOTS \<and> (100 :: byte) \<noteq> SignatureEd25519
   \<and> (100 :: byte) \<noteq> TransactionUnsigned
   \<and> SignatureSelector 100 =
        Return (None, Some (Errorf ''%w: type byte %d'' ErrUnknownSignatureType [ArgD 100]))
   \<and> (TransactionSelector 100
         :: ((unit, unit, unit) UnsignedTransaction option \<times> error option) go) =
        Return (None, Some (Errorf ''%w: type byte %d'' ErrUnknownTransactionType [ArgD 100]))"
  using selectors_unknown_and_known [of 100, where 'i = unit and 'o = unit and 'p = unit]
  by (simp add: SignatureWOTS_def SignatureEd25519_def TransactionUnsigned_def)

subsection \<open>The object decode primitive\<close>

text \<open>
  C9: \<open>DeserializeObject\<close> reads the type with \<open>uvarint\<close>, drops the number of bytes
  read, and calls the selected object's \<open>Deserialize\<close> on the same \<open>data\<close>. What it
  returns as bytes consumed is the number that call returned; an error of that call
  comes back wrapped, and a panic passes through.
\<close>

theorem DeserializeObject_delegates:
  assumes "uvarint data = (ty, k, None)"
    and "serSel ty = Return (Some seri, None)"
  shows "(Deserialize M seri data deSeriMode = Return (decoded, n, None) \<longrightarrow>
            DeserializeObject uvarint M data deSeriMode serSel = Return (Some decoded, n, None))
       \<and> (Deserialize M seri data deSeriMode = Return (decoded, n, Some err) \<longrightarrow>
            DeserializeObject uvarint M data deSeriMode serSel =
              Return (None, 0, Some (Errorf ''unable to deserialize %T: %w'' err
                                       [ArgT (GoTypeName M decoded)])))
       \<and> (Deserialize M seri data deSeriMode = Panic m \<longrightarrow>
            DeserializeObject uvarint M data deSeriMode serSel = Panic m)"
  using assms by (simp add: DeserializeObject_def)

text \<open>
  On the bytes \<open>00 07 09\<close> the two-byte object reports 2 bytes, and so does the primitive:
  the type byte is counted once.
\<close>

theorem DeserializeObject_delegates_witness:
  "Uvarint [0, 7, 9] = (0, 1, None)
   \<and> TaggedByte_Selector 0 = Return (Some 0, None)
   \<and> Deserialize TaggedByte 0 [0, 7, 9] 0 = Return (7, 2, None)
   \<and> DeserializeObject Uvarint TaggedByte [0, 7, 9] 0 TaggedByte_Selector =
       Return (Some 7, 2, None)"
proof -
  have u: "Uvarint [0, 7, 9] = (0, 1, None)" by code_simp
  have s: "TaggedByte_Selector 0 = Return (Some 0, None)" by code_simp
  have d: "Deserialize TaggedByte 0 [0, 7, 9] 0 = Return (7, 2, None)" by code_simp
  from u s d
    DeserializeObject_delegates [where uvarint = Uvarint and data = "[0, 7, 9]" and ty = 0
      and k = 1 and serSel = TaggedByte_Selector and seri = 0 and M = TaggedByte
      and deSeriMode = 0 and decoded = 7 and n = 2]
  have "DeserializeObject Uvarint TaggedByte [0, 7, 9] 0 TaggedByte_Selector =
          Return (Some 7, 2, None)"
    by simp
  with u s d show ?thesis by simp
qed

subsection \<open>Arrays of objects\<close>









subsection \<open>Serializing the transaction\<close>

text \<open>
  C10: when validation passes or is skipped and every input and output serializes, the
  bytes of \<open>Serialize\<close> are the type byte, the count and the bytes of the inputs, the
  count and the bytes of the outputs, and then: for a nil payload the one byte 0; for
  a payload whose \<open>Serialize\<close> gives \<open>p\<close> (its error is not looked at) the bytes
  \<open>p\<close>, the varint of the length of \<open>p\<close>, and \<open>p\<close> once more.
\<close>

theorem Serialize_payload_layout:
  assumes valid: "skipValidation \<or>
      (ValidateInputs_UTXORefsUnique C (Inputs u) = None
       \<and> ValidateOutputs_AddrUnique C (Outputs u) = None)"
    and ins: "map (\<lambda>x. Input_Serialize C x skipValidation) (Inputs u) =
                map (\<lambda>s. Return (s, None)) inputSers"
    and outs: "map (\<lambda>x. Output_Serialize C x skipValidation) (Outputs u) =
                 map (\<lambda>s. Return (s, None)) outputSers"
  shows "(Payload u = None \<longrightarrow>
            UnsignedTransaction_Serialize C u skipValidation =
              Return ([TransactionUnsigned]
                        @ PutUvarint (word_of_nat (length (Inputs u))) @ concat inputSers
                        @ PutUvarint (word_of_nat (length (Outputs u))) @ concat outputSers
                        @ [0], None))
       \<and> (Payload u = Some payload
            \<and> Payload_Serialize C payload skipValidation = Return (p, perr) \<longrightarrow>
            UnsignedTransaction_Serialize C u skipValidation =
              Return ([TransactionUnsigned]
                        @ PutUvarint (word_of_nat (length (Inputs u))) @ concat inputSers
                        @ PutUvarint (word_of_nat (length (Outputs u))) @ concat outputSers
                        @ p @ PutUvarint (word_of_nat (length p)) @ p, None))"
proof -
  have v: "(if \<not> skipValidation
            then (case ValidateInputs_UTXORefsUnique C (Inputs u) of
                    Some err \<Rightarrow> Some err
                  | None \<Rightarrow> ValidateOutputs_AddrUnique C (Outputs u))
            else None) = None"
    using valid by auto
  have i: "Serialize_range fmt (Input_Serialize C) skipValidation j (Inputs u) b =
             Return (b @ concat inputSers, None)" for fmt j b
    using ins Serialize_range_all [of "Input_Serialize C" skipValidation "Inputs u" inputSers]
    by simp
  have o: "Serialize_range fmt (Output_Serialize C) skipValidation j (Outputs u) b =
             Return (b @ concat outputSers, None)" for fmt j b
    using outs Serialize_range_all [of "Output_Serialize C" skipValidation "Outputs u" outputSers]
    by simp
  show ?thesis
    unfolding UnsignedTransaction_Serialize_def v
    by (simp add: i o)
qed

text \<open>
  One input \<open>01 02\<close>, one output \<open>03\<close> and the payload \<open>09 09\<close>: after the output come
  \<open>09 09\<close>, the length 2, and \<open>09 09\<close> again.
\<close>

theorem Serialize_payload_layout_witness:
  "map (\<lambda>x. Input_Serialize RawBytes_calls x False) [[1, 2]] =
     map (\<lambda>s. Return (s, None)) [[1, 2]]
   \<and> map (\<lambda>x. Output_Serialize RawBytes_calls x False) [[3]] =
       map (\<lambda>s. Return (s, None)) [[3]]
   \<and> ValidateInputs_UTXORefsUnique RawBytes_calls [[1, 2]] = None
   \<and> ValidateOutputs_AddrUnique RawBytes_calls [[3]] = None
   \<and> Payload_Serialize RawBytes_calls [9, 9] False = Return ([9, 9], None)
   \<and> UnsignedTransaction_Serialize RawBytes_calls
         \<lparr>Inputs = [[1, 2]], Outputs = [[3]], Payload = Some [9, 9]\<rparr> False =
       Return ([0, 1, 1, 2, 1, 3, 9, 9, 2, 9, 9], None)"
proof -
  have ins: "map (\<lambda>x. Input_Serialize RawBytes_calls x False) [[1, 2]] =
     map (\<lambda>s. Return (s, None)) [[1, 2]]"
    by (simp add: RawBytes_calls_def RawBytes_Serialize_def)
  have outs: "map (\<lambda>x. Output_Serialize RawBytes_calls x False) [[3]] =
       map (\<lambda>s. Return (s, None)) [[3]]"
    by (simp add: RawBytes_calls_def RawBytes_Serialize_def)
  have vi: "ValidateInputs_UTXORefsUnique RawBytes_calls [[1, 2]] = None"
    by (simp add: RawBytes_calls_def accept_all_def)
  have vo: "ValidateOutputs_AddrUnique RawBytes_calls [[3]] = None"
    by (simp add: RawBytes_calls_def accept_all_def)
  have pl: "Payload_Serialize RawBytes_calls [9, 9] False = Return ([9, 9], None)"
    by (simp add: RawBytes_calls_def RawBytes_Serialize_def)
  have p1: "PutUvarint 1 = [1]" by code_simp
  have p2: "PutUvarint 2 = [2]" by code_simp
  from vi vo ins outs pl
    Serialize_payload_layout [where C = RawBytes_calls and skipValidation = False
      and u = "\<lparr>Inputs = [[1, 2]], Outputs = [[3]], Payload = Some [9, 9]\<rparr>"
      and inputSers = "[[1, 2]]" and outputSers = "[[3]]" and payload = "[9, 9]"
      and p = "[9, 9]" and perr = None]
  have "UnsignedTransaction_Serialize RawBytes_calls
         \<lparr>Inputs = [[1, 2]], Outputs = [[3]], Payload = Some [9, 9]\<rparr> False =
       Return ([0, 1, 1, 2, 1, 3, 9, 9, 2, 9, 9], None)"
    by (simp add: p1 p2 TransactionUnsigned_def)
  with ins outs vi vo pl show ?thesis by simp
qed

text \<open>
  C4: with validation on and the validators as the spec describes them, a transaction
  with two inputs of the same derived key, or two outputs of the same derived key,
  makes \<open>Serialize\<close> return the validator's error and nil bytes. This holds for every
  \<open>Serialize\<close> method of the elements, panicking ones included: the validation comes
  before any byte is produced.
\<close>

theorem Serialize_rejects_duplicates:
  assumes "\<not> skipValidation"
    and "\<not> distinct (map inputKey (Inputs u)) \<or> \<not> distinct (map outputKey (Outputs u))"
  shows "UnsignedTransaction_Serialize (validated_calls inputKey outputKey C) u skipValidation =
           Return ([], Some (if \<not> distinct (map inputKey (Inputs u))
                             then ErrInputUTXORefsNotUnique else ErrOutputAddrNotUnique))"
  using assms
  by (intro Serialize_validation_gate)
     (auto simp: validated_calls_def InputsUTXORefsUniqueValidator_def
        OutputsAddrUniqueValidator_def)

text \<open>Two inputs with the same key \<open>01\<close>: the duplicate reference error, and no bytes.\<close>

theorem Serialize_rejects_duplicates_witness:
  "\<not> distinct (map RawBytes_key [[1], [1]])
   \<and> UnsignedTransaction_Serialize (validated_calls RawBytes_key RawBytes_key RawBytes_calls)
         \<lparr>Inputs = [[1], [1]], Outputs = [[3]], Payload = None\<rparr> False =
       Return ([], Some ErrInputUTXORefsNotUnique)"
proof -
  have d: "\<not> distinct (map RawBytes_key [[1], [1 :: byte]])"
    by (simp add: RawBytes_key_def)
  from d Serialize_rejects_duplicates [where skipValidation = False
      and inputKey = RawBytes_key and outputKey = RawBytes_key and C = RawBytes_calls
      and u = "\<lparr>Inputs = [[1], [1]], Outputs = [[3]], Payload = None\<rparr>"]
  have "UnsignedTransaction_Serialize (validated_calls RawBytes_key RawBytes_key RawBytes_calls)
         \<lparr>Inputs = [[1], [1]], Outputs = [[3]], Payload = None\<rparr> False =
       Return ([], Some ErrInputUTXORefsNotUnique)"
    by simp
  with d show ?thesis by simp
qed


end
